theory Spec2Isabelle
  imports Main
begin

section \<open>Configuration\<close>

text \<open>The module-level constants of \<^verbatim>\<open>BatchPdfConv.py\<close>.\<close>

definition DOC_DIR :: string where
  "DOC_DIR = ''docs_import''"

definition EXPORT_DIR :: string where
  "EXPORT_DIR = ''docs_exports''"

definition MAX_RETRIES :: nat where
  "MAX_RETRIES = 5"

definition INITIAL_BACKOFF :: nat where
  "INITIAL_BACKOFF = 1"

section \<open>Strings and paths\<close>

text \<open>
  \<^verbatim>\<open>str(n)\<close> for the integers that the program formats into text: the attempt
  counter and \<^verbatim>\<open>page.index + 1\<close>.
\<close>

definition digit_char :: "nat \<Rightarrow> char" where
  "digit_char d = ''0123456789'' ! d"

fun str_nat :: "nat \<Rightarrow> string" where
  "str_nat n = (if n < 10 then [digit_char n] else str_nat (n div 10) @ [digit_char (n mod 10)])"

definition str_int :: "int \<Rightarrow> string" where
  "str_int i = (if i < 0 then ''-'' @ str_nat (nat (- i)) else str_nat (nat i))"

text \<open>
  \<^verbatim>\<open>str.lower\<close>, on the letters A to Z. The only use is the test
  \<^verbatim>\<open>file.lower().endswith(".pdf")\<close>, and no character outside A to Z is lowered to one of
  the four characters of the suffix.
\<close>

definition lower_char :: "char \<Rightarrow> char" where
  "lower_char c =
     (case map_of (zip ''ABCDEFGHIJKLMNOPQRSTUVWXYZ'' ''abcdefghijklmnopqrstuvwxyz'') c of
        Some l \<Rightarrow> l
      | None \<Rightarrow> c)"

definition lower :: "string \<Rightarrow> string" where
  "lower s = map lower_char s"

definition endswith :: "string \<Rightarrow> string \<Rightarrow> bool" where
  "endswith s suffix = (length suffix \<le> length s \<and> drop (length s - length suffix) s = suffix)"

text \<open>\<^verbatim>\<open>s.rsplit(".", 1)[0]\<close>: what precedes the last dot, or all of \<open>s\<close> when it has none.\<close>

definition rsplit_dot_head :: "string \<Rightarrow> string" where
  "rsplit_dot_head s =
     (if CHR ''.'' \<in> set s then rev (tl (dropWhile (\<lambda>c. c \<noteq> CHR ''.'') (rev s))) else s)"

text \<open>
  \<^verbatim>\<open>os.path.join(a, b)\<close> on POSIX for the arguments the program passes: \<open>a\<close> is a
  non-empty directory path without a trailing separator and \<open>b\<close> is relative.
\<close>

definition os_path_join :: "string \<Rightarrow> string \<Rightarrow> string" where
  "os_path_join a b = a @ ''/'' @ b"

text \<open>
  \<^verbatim>\<open>os.path.relpath(path, start)\<close> for a path below \<open>start\<close>, which is the only case
  that the directory walk produces: the part of the path after \<open>start\<close> and its separator.
\<close>

definition os_path_relpath :: "string \<Rightarrow> string \<Rightarrow> string" where
  "os_path_relpath path start =
     (if take (length start + 1) path = start @ ''/'' then drop (length start + 1) path else path)"

section \<open>Discovery\<close>

text \<open>
  The content of a directory, in the order in which the directory is scanned: plain files
  and subdirectories, each with its name.
\<close>

datatype entry = File string | Folder string "entry list"

text \<open>
  \<^verbatim>\<open>os.walk(root)\<close>, top-down: the triple of the directory itself, then the walks of
  its subdirectories in order.
\<close>

fun os_walk :: "string \<Rightarrow> entry list \<Rightarrow> (string \<times> string list \<times> string list) list" where
  "os_walk root es =
     (root, [n. Folder n sub \<leftarrow> es], [n. File n \<leftarrow> es]) #
     concat (map (\<lambda>e. case e of
                         Folder n sub \<Rightarrow> os_walk (os_path_join root n) sub
                       | File n \<Rightarrow> []) es)"

text \<open>
  \<^verbatim>\<open>get_pdf_files\<close>. The argument is the tree under \<^verbatim>\<open>DOC_DIR\<close>, or \<open>None\<close> when
  \<^verbatim>\<open>DOC_DIR\<close> is not a directory; then the program creates it and leaves with
  \<^verbatim>\<open>sys.exit(1)\<close>, which is the result \<open>Inl 1\<close>.
\<close>

definition get_pdf_files :: "entry list option \<Rightarrow> nat + string list" where
  "get_pdf_files docs =
     (case docs of
        None \<Rightarrow> Inl 1
      | Some es \<Rightarrow>
          Inr (concat (map (\<lambda>(root, dirs, files).
                 map (\<lambda>file. os_path_relpath (os_path_join root file) DOC_DIR)
                     (filter (\<lambda>file. endswith (lower file) ''.pdf'') files))
               (os_walk DOC_DIR es))))"

section \<open>The record store\<close>

text \<open>
  A row with the four columns of \<^verbatim>\<open>FIELDNAMES\<close>. The dictionary that \<^verbatim>\<open>main\<close> passes
  to \<^verbatim>\<open>update_db\<close> holds the attempt count as a number (\<open>nat row\<close>); a row of
  \<^verbatim>\<open>processed_files.csv\<close> holds text in every cell (\<open>string row\<close>), and that is what
  \<^verbatim>\<open>csv.DictReader\<close> returns.
\<close>

record 'a row =
  filename :: string
  status :: string
  attempts :: 'a
  error :: string

text \<open>
  The file is the list of its data rows, or \<open>None\<close> when it does not exist. The
  quoting of the \<^verbatim>\<open>csv\<close> library is not modelled: a cell holds the text that was
  written.
\<close>

type_synonym csv_file = "string row list option"

text \<open>
  \<^verbatim>\<open>csv.DictWriter\<close> writes \<^verbatim>\<open>str(value)\<close> for each cell, so the dictionary of
  \<^verbatim>\<open>main\<close> enters the file with the decimal text of its attempt count.
\<close>

definition text_row :: "nat row \<Rightarrow> string row" where
  "text_row record =
     \<lparr>filename = filename record, status = status record,
      attempts = str_nat (attempts record), error = error record\<rparr>"

text \<open>
  The reader of the \<^verbatim>\<open>csv\<close> library refuses a field of more characters than
  \<^verbatim>\<open>csv.field_size_limit()\<close>, 131072 unless changed, which the program never does; it
  raises \<^verbatim>\<open>_csv.Error\<close> with the text below when the iteration reaches the row. The
  writer has no such limit.
\<close>

definition field_size_limit :: nat where
  "field_size_limit = 131072"

definition field_limit_error :: string where
  "field_limit_error = ''field larger than field limit (131072)''"

definition row_readable :: "string row \<Rightarrow> bool" where
  "row_readable r =
     (length (filename r) \<le> field_size_limit \<and> length (status r) \<le> field_size_limit \<and>
      length (attempts r) \<le> field_size_limit \<and> length (error r) \<le> field_size_limit)"

text \<open>
  The loop of \<^verbatim>\<open>load_processed\<close>: a later row of a filename replaces an earlier one;
  \<open>Inl\<close> carries the text of the exception that the reader raises.
\<close>

fun load_rows :: "string row list \<Rightarrow> (string \<rightharpoonup> string row) \<Rightarrow> string + (string \<rightharpoonup> string row)" where
  "load_rows [] processed = Inr processed"
| "load_rows (r # rest) processed =
     (if \<not> row_readable r then Inl field_limit_error
      else load_rows rest (processed(filename r \<mapsto> r)))"

definition load_processed :: "csv_file \<Rightarrow> string + (string \<rightharpoonup> string row)" where
  "load_processed csv =
     (case csv of
        None \<Rightarrow> Inr Map.empty
      | Some rows \<Rightarrow> load_rows rows Map.empty)"

text \<open>
  The loop of \<^verbatim>\<open>update_db\<close> over the rows that are read, with its two variables
  \<^verbatim>\<open>records\<close> and \<^verbatim>\<open>found\<close>. The list \<^verbatim>\<open>records\<close> is kept as the rows that
  the writer will write.
\<close>

fun scan_rows ::
  "nat row \<Rightarrow> string row list \<Rightarrow> string row list \<Rightarrow> bool \<Rightarrow> string + (string row list \<times> bool)" where
  "scan_rows record [] records found = Inr (records, found)"
| "scan_rows record (r # rest) records found =
     (if \<not> row_readable r then Inl field_limit_error
      else if filename r = filename record
      then scan_rows record rest (records @ [text_row record]) True
      else scan_rows record rest (records @ [r]) found)"

text \<open>
  \<^verbatim>\<open>update_db\<close>: the file it has written, or the text of the exception raised while
  reading, in which case the file was not opened for writing and is as before.
\<close>

definition update_db :: "nat row \<Rightarrow> csv_file \<Rightarrow> string + csv_file" where
  "update_db record csv =
     (case (case csv of
              None \<Rightarrow> Inr ([], False)
            | Some rows \<Rightarrow> scan_rows record rows [] False) of
        Inl e \<Rightarrow> Inl e
      | Inr (records, found) \<Rightarrow>
          Inr (Some (if \<not> found then records @ [text_row record] else records)))"

definition rows_of :: "csv_file \<Rightarrow> string row list" where
  "rows_of csv = (case csv of None \<Rightarrow> [] | Some rows \<Rightarrow> rows)"

section \<open>The conversion of one file\<close>

text \<open>A page of the response of the service.\<close>

record page =
  index :: int
  markdown :: string

text \<open>
  What the world answers during one call of \<^verbatim>\<open>convert_pdf_to_markdown\<close>. An
  \<open>Inl\<close> or a \<open>Some\<close> carries the text of the exception that the step raises.
  \<^item> \<open>pdf_read\<close>: opening and reading the source file and encoding it; \<open>Inr\<close> carries the
    base64 text.
  \<^item> \<open>ocr_response\<close>: the call of the service; \<open>Inr\<close> carries the pages of the response.
  \<^item> \<open>md_write\<close>: creating the output directory and writing the Markdown file.
  \<^item> \<open>md_exists\<close>: whether the Markdown file exists after it was written.
  \<^item> \<open>docx_convert\<close>: the conversion to Word.
\<close>

record attempt_env =
  pdf_read :: "string + string"
  ocr_response :: "string + page list"
  md_write :: "string option"
  md_exists :: bool
  docx_convert :: "string option"

text \<open>
  The result of one call: the text of the exception it raises, if any, the lines it sends
  to the log, and the files it has written when it returns (the path and content of the
  Markdown file, the path of the Word file). What a failed call leaves on disk is not part
  of the model.
\<close>

record conversion =
  raised :: "string option"
  log_lines :: "string list"
  md_file :: "(string \<times> string) option"
  docx_file :: "string option"

definition encode_pdf :: "attempt_env \<Rightarrow> string \<Rightarrow> string option \<times> string list" where
  "encode_pdf env pdf_path =
     (case pdf_read env of
        Inr b64 \<Rightarrow> (Some b64, [])
      | Inl e \<Rightarrow> (None, [''Failed to encode '' @ pdf_path @ '': '' @ e]))"

text \<open>The loop over \<^verbatim>\<open>response.pages\<close>: two writes for each page, appended to the file.\<close>

fun write_pages :: "page list \<Rightarrow> string \<Rightarrow> string" where
  "write_pages [] md = md"
| "write_pages (p # ps) md =
     write_pages ps
       ((md @ (''## Page '' @ str_int (index p + 1) @ ''\<newline>\<newline>'')) @ (markdown p @ ''\<newline>\<newline>''))"

definition convert_pdf_to_markdown :: "attempt_env \<Rightarrow> string \<Rightarrow> conversion" where
  "convert_pdf_to_markdown env pdf_filename =
     (let full_path = os_path_join DOC_DIR pdf_filename;
          (b64, enc_log) = encode_pdf env full_path
      in if b64 = None \<or> b64 = Some []
         then \<lparr>raised = Some ''PDF encoding failed.'', log_lines = enc_log,
               md_file = None, docx_file = None\<rparr>
         else
           (case ocr_response env of
              Inl e \<Rightarrow> \<lparr>raised = Some e, log_lines = enc_log, md_file = None, docx_file = None\<rparr>
            | Inr pages \<Rightarrow>
                (let output_name = rsplit_dot_head pdf_filename @ ''.md'';
                     output_path = os_path_join EXPORT_DIR output_name
                 in case md_write env of
                      Some e \<Rightarrow>
                        \<lparr>raised = Some e, log_lines = enc_log, md_file = None, docx_file = None\<rparr>
                    | None \<Rightarrow>
                        (let md = write_pages pages []
                         in if md_exists env
                            then
                              (let docx_path =
                                     os_path_join EXPORT_DIR (rsplit_dot_head pdf_filename @ ''.docx'')
                               in case docx_convert env of
                                    None \<Rightarrow>
                                      \<lparr>raised = None, log_lines = enc_log,
                                       md_file = Some (output_path, md),
                                       docx_file = Some docx_path\<rparr>
                                  | Some e \<Rightarrow>
                                      \<lparr>raised = None,
                                       log_lines = enc_log @
                                         [''Word conversion failed for '' @ pdf_filename @ '': '' @ e],
                                       md_file = Some (output_path, md),
                                       docx_file = None\<rparr>)
                            else
                              \<lparr>raised = None, log_lines = enc_log,
                               md_file = Some (output_path, md), docx_file = None\<rparr>))))"

section \<open>The retry loop and the run\<close>

text \<open>
  What a run does that can be seen from outside, in order: a call of the conversion, a
  record that \<^verbatim>\<open>update_db\<close> has written, a \<^verbatim>\<open>time.sleep\<close>, a line sent to the log.
  The lines printed on the terminal are left out.
\<close>

datatype event =
    Convert string
  | Upsert "nat row"
  | Sleep nat
  | Log string

text \<open>
  The state of a run: the store, the number of conversion calls made so far (the world
  answers the \<open>n\<close>-th call on file \<open>f\<close> with \<open>world n f\<close>), the counter
  \<^verbatim>\<open>converted_count\<close>, the events so far and the Markdown files written so far.
\<close>

record run_state =
  db :: csv_file
  calls :: nat
  converted_count :: nat
  trace :: "event list"
  exported :: "string \<rightharpoonup> string"

text \<open>
  The \<^verbatim>\<open>except\<close> block of the loop body, entered with the text of the exception that
  was caught. Its own call of \<^verbatim>\<open>update_db\<close> is not guarded: an exception raised there
  leaves the loop and \<^verbatim>\<open>main\<close>, which is the result \<open>Inl\<close> with the text of the
  exception and the state reached.
\<close>

definition on_exception ::
  "string \<Rightarrow> nat \<Rightarrow> nat \<Rightarrow> bool \<Rightarrow> run_state \<Rightarrow> string \<Rightarrow>
   (string \<times> run_state) + (nat \<times> bool \<times> run_state)" where
  "on_exception pdf n_attempts backoff success s error_msg =
     (let record = \<lparr>filename = pdf, status = ''error'', attempts = n_attempts,
                     error = error_msg\<rparr>
      in case update_db record (db s) of
           Inl e \<Rightarrow> Inl (e, s)
         | Inr csv \<Rightarrow>
             (let s2 = s\<lparr>db := csv,
                         trace := trace s @
                           [Upsert record,
                            Log (pdf @ '' attempt '' @ str_nat n_attempts @ '' failed: '' @ error_msg)]\<rparr>
              in if n_attempts < MAX_RETRIES
                 then Inr (backoff * 2, success, s2\<lparr>trace := trace s2 @ [Sleep backoff]\<rparr>)
                 else Inr (backoff, success, s2)))"

text \<open>
  The body of the \<^verbatim>\<open>while\<close> loop after its first statement, the increment of
  \<^verbatim>\<open>attempts\<close>; it gives the new values of \<^verbatim>\<open>backoff\<close> and \<^verbatim>\<open>success\<close>. An exception of \<^verbatim>\<open>update_db\<close> in the \<^verbatim>\<open>try\<close> block is caught
  like one of the conversion, after \<^verbatim>\<open>success\<close> and \<^verbatim>\<open>converted_count\<close> were set.
\<close>

definition attempt_once ::
  "(nat \<Rightarrow> string \<Rightarrow> attempt_env) \<Rightarrow> string \<Rightarrow> nat \<Rightarrow> nat \<Rightarrow> run_state \<Rightarrow>
   (string \<times> run_state) + (nat \<times> bool \<times> run_state)" where
  "attempt_once world pdf n_attempts backoff s =
     (let c = convert_pdf_to_markdown (world (calls s) pdf) pdf;
          s1 = s\<lparr>calls := calls s + 1,
                 trace := trace s @ [Convert pdf] @ map Log (log_lines c),
                 exported := (case md_file c of
                                None \<Rightarrow> exported s
                              | Some (path, md) \<Rightarrow> (exported s)(path \<mapsto> md))\<rparr>
      in case raised c of
           None \<Rightarrow>
             (let s2 = s1\<lparr>converted_count := converted_count s1 + 1\<rparr>;
                  record = \<lparr>filename = pdf, status = ''success'', attempts = n_attempts,
                            error = ''''\<rparr>
              in case update_db record (db s2) of
                   Inr csv \<Rightarrow>
                     Inr (backoff, True,
                          s2\<lparr>db := csv, trace := trace s2 @ [Upsert record, Sleep 3]\<rparr>)
                 | Inl e \<Rightarrow> on_exception pdf n_attempts backoff True s2 e)
         | Some error_msg \<Rightarrow> on_exception pdf n_attempts backoff False s1 error_msg)"

function retry_loop ::
  "(nat \<Rightarrow> string \<Rightarrow> attempt_env) \<Rightarrow> string \<Rightarrow> nat \<Rightarrow> nat \<Rightarrow> bool \<Rightarrow> run_state \<Rightarrow>
   (string \<times> run_state) + (nat \<times> nat \<times> bool \<times> run_state)" where
  "retry_loop world pdf n_attempts backoff success s =
     (if n_attempts < MAX_RETRIES \<and> \<not> success
      then (case attempt_once world pdf (n_attempts + 1) backoff s of
              Inl crash \<Rightarrow> Inl crash
            | Inr (backoff', success', s') \<Rightarrow>
                retry_loop world pdf (n_attempts + 1) backoff' success' s')
      else Inr (n_attempts, backoff, success, s))"
  by pat_completeness auto
termination
  by (relation "measure (\<lambda>(world, pdf, n_attempts, backoff, success, s). MAX_RETRIES - n_attempts)")
     auto

text \<open>
  The body of the \<^verbatim>\<open>for\<close> loop of \<^verbatim>\<open>main\<close>: the retry session of one file, which ends
  with the state reached or with an exception.
\<close>

definition process_file ::
  "(nat \<Rightarrow> string \<Rightarrow> attempt_env) \<Rightarrow> string \<Rightarrow> run_state \<Rightarrow> (string \<times> run_state) + run_state" where
  "process_file world pdf s =
     (case retry_loop world pdf 0 INITIAL_BACKOFF False s of
        Inl crash \<Rightarrow> Inl crash
      | Inr (n_attempts, backoff, success, s') \<Rightarrow> Inr s')"

text \<open>The \<^verbatim>\<open>for\<close> loop of \<^verbatim>\<open>main\<close> over the work set.\<close>

fun run_files ::
  "(nat \<Rightarrow> string \<Rightarrow> attempt_env) \<Rightarrow> string list \<Rightarrow> run_state \<Rightarrow> (string \<times> run_state) + run_state" where
  "run_files world [] s = Inr s"
| "run_files world (pdf # rest) s =
     (case process_file world pdf s of
        Inl crash \<Rightarrow> Inl crash
      | Inr s' \<Rightarrow> run_files world rest s')"

text \<open>
  The work set: \<^verbatim>\<open>[f for f in all_files if processed.get(f, {}).get("status") != "success"]\<close>.
\<close>

definition to_do :: "(string \<rightharpoonup> string row) \<Rightarrow> string list \<Rightarrow> string list" where
  "to_do processed all_files =
     filter (\<lambda>f. (case processed f of None \<Rightarrow> None | Some r \<Rightarrow> Some (status r)) \<noteq> Some ''success'')
       all_files"

definition initial_state :: "csv_file \<Rightarrow> run_state" where
  "initial_state csv =
     \<lparr>db = csv, calls = 0, converted_count = 0, trace = [], exported = Map.empty\<rparr>"

text \<open>
  How a run of \<^verbatim>\<open>main\<close> ends: with \<^verbatim>\<open>sys.exit\<close> in \<^verbatim>\<open>get_pdf_files\<close>, with an
  exception that nothing catches, or at the end of \<^verbatim>\<open>main\<close>.
\<close>

datatype run_result =
    Exited nat
  | Raised string run_state
  | Finished run_state

text \<open>
  \<^verbatim>\<open>main\<close>, from the tree under \<^verbatim>\<open>DOC_DIR\<close> and the store as the run finds them.
\<close>

definition main :: "(nat \<Rightarrow> string \<Rightarrow> attempt_env) \<Rightarrow> entry list option \<Rightarrow> csv_file \<Rightarrow> run_result" where
  "main world docs csv =
     (case load_processed csv of
        Inl e \<Rightarrow> Raised e (initial_state csv)
      | Inr processed \<Rightarrow>
          (case get_pdf_files docs of
             Inl code \<Rightarrow> Exited code
           | Inr all_files \<Rightarrow>
               (case run_files world (to_do processed all_files) (initial_state csv) of
                  Inl (e, s) \<Rightarrow> Raised e s
                | Inr s \<Rightarrow> Finished s)))"

section \<open>Observations of the store and of a run\<close>

text \<open>A store that the reader can read: no field of any row is over the limit.\<close>

definition readable :: "csv_file \<Rightarrow> bool" where
  "readable csv = list_all row_readable (rows_of csv)"


text \<open>What an upsert of the row \<open>new\<close> makes of a row that was read.\<close>

definition replace_row :: "string row \<Rightarrow> string row \<Rightarrow> string row" where
  "replace_row new r = (if filename r = filename new then new else r)"


text \<open>
  Projections of a list of events: the durations of the sleeps, the records that
  \<^verbatim>\<open>update_db\<close> has written, and the files on which the conversion was called.
\<close>

fun sleeps :: "event list \<Rightarrow> nat list" where
  "sleeps [] = []"
| "sleeps (Sleep d # es) = d # sleeps es"
| "sleeps (e # es) = sleeps es"

fun upserts :: "event list \<Rightarrow> nat row list" where
  "upserts [] = []"
| "upserts (Upsert r # es) = r # upserts es"
| "upserts (e # es) = upserts es"

fun conversions :: "event list \<Rightarrow> string list" where
  "conversions [] = []"
| "conversions (Convert f # es) = f # conversions es"
| "conversions (e # es) = conversions es"







text \<open>The test of \<^verbatim>\<open>get_pdf_files\<close> on a file name.\<close>

definition is_pdf :: "string \<Rightarrow> bool" where
  "is_pdf file = endswith (lower file) ''.pdf''"

text \<open>
  Trees as a file system holds them: in each directory the names of the entries are
  distinct and no name contains the separator.
\<close>

fun entry_name :: "entry \<Rightarrow> string" where
  "entry_name (File n) = n"
| "entry_name (Folder n sub) = n"

fun well_named :: "entry list \<Rightarrow> bool" where
  "well_named es =
     (distinct (map entry_name es) \<and>
      (\<forall>e \<in> set es. CHR ''/'' \<notin> set (entry_name e) \<and>
         (case e of Folder n sub \<Rightarrow> well_named sub | File n \<Rightarrow> True)))"

text \<open>
  The paths of the PDF files of a tree relative to its root, subdirectories included: a
  file of the directory by its name, then the files of each subdirectory by the name of
  the subdirectory, the separator and their relative path there.
\<close>

fun rel_paths :: "entry list \<Rightarrow> string list" where
  "rel_paths es =
     filter is_pdf [n. File n \<leftarrow> es] @
     concat (map (\<lambda>e. case e of
                         Folder n sub \<Rightarrow> map (\<lambda>q. n @ ''/'' @ q) (rel_paths sub)
                       | File n \<Rightarrow> []) es)"


section \<open>Inputs of the examples\<close>


text \<open>
  Answers of the world: the service refuses the call with a short text; it refuses the
  call with the long text; it returns one page with the text \<open>hello\<close> and every other
  step succeeds; the same with the conversion to Word raising; the source file cannot be
  read.
\<close>

definition failing_env :: attempt_env where
  "failing_env = \<lparr>pdf_read = Inr ''JVBERg=='', ocr_response = Inl ''Service unavailable'',
     md_write = None, md_exists = True, docx_convert = None\<rparr>"


definition hello_env :: attempt_env where
  "hello_env = \<lparr>pdf_read = Inr ''JVBERg=='',
     ocr_response = Inr [\<lparr>index = 0, markdown = ''hello''\<rparr>],
     md_write = None, md_exists = True, docx_convert = None\<rparr>"




text \<open>A tree with a file of the same name in two folders.\<close>

definition two_folders :: "entry list" where
  "two_folders = [Folder ''x'' [File ''a.pdf''], Folder ''y'' [File ''a.pdf'']]"

section \<open>The record store: upsert and load\<close>

lemma filename_text_row: "filename (text_row record) = filename record"
  by (simp add: text_row_def)

lemma scan_rows_readable:
  "list_all row_readable rows \<Longrightarrow>
   scan_rows record rows records found =
     Inr (records @ map (replace_row (text_row record)) rows,
          found \<or> filename record \<in> filename ` set rows)"
  by (induction rows arbitrary: records found) (auto simp: replace_row_def filename_text_row)

lemma scan_rows_unreadable:
  "\<not> list_all row_readable rows \<Longrightarrow> scan_rows record rows records found = Inl field_limit_error"
  by (induction rows arbitrary: records found) auto

lemma map_replace_absent:
  "filename new \<notin> filename ` set rows \<Longrightarrow> map (replace_row new) rows = rows"
  by (induction rows) (auto simp: replace_row_def)

lemma update_db_readable:
  "readable csv \<Longrightarrow>
   update_db record csv =
     Inr (Some (if filename record \<in> filename ` set (rows_of csv)
                then map (replace_row (text_row record)) (rows_of csv)
                else rows_of csv @ [text_row record]))"
  by (cases csv)
     (simp_all add: update_db_def readable_def rows_of_def scan_rows_readable
        map_replace_absent filename_text_row)

lemma update_db_unreadable:
  "\<not> readable csv \<Longrightarrow> update_db record csv = Inl field_limit_error"
  by (cases csv) (simp_all add: update_db_def readable_def rows_of_def scan_rows_unreadable)






lemma load_rows_unreadable:
  "\<not> list_all row_readable rows \<Longrightarrow> load_rows rows m = Inl field_limit_error"
  by (induction rows arbitrary: m) auto


lemma load_processed_unreadable:
  "\<not> readable csv \<Longrightarrow> load_processed csv = Inl field_limit_error"
  by (cases csv) (simp_all add: load_processed_def readable_def rows_of_def load_rows_unreadable)










section \<open>The loop body\<close>








lemma length_str_nat_digit: "n < 10 \<Longrightarrow> length (str_nat n) = 1"
  by simp


text \<open>The \<^verbatim>\<open>except\<close> block, when the store can be read and when it cannot.\<close>

lemma on_exception_readable:
  assumes "readable (db s)"
  shows "\<exists>s' evs. on_exception pdf n b su s msg =
            Inr ((if n < MAX_RETRIES then b * 2 else b), su, s') \<and>
          calls s' = calls s \<and> converted_count s' = converted_count s \<and>
          update_db \<lparr>filename = pdf, status = ''error'', attempts = n, error = msg\<rparr> (db s) = Inr (db s') \<and>
          trace s' = trace s @ evs \<and> conversions evs = [] \<and>
          upserts evs = [\<lparr>filename = pdf, status = ''error'', attempts = n, error = msg\<rparr>] \<and>
          sleeps evs = (if n < MAX_RETRIES then [b] else [])"
  using assms by (simp add: on_exception_def Let_def update_db_readable)

lemma on_exception_unreadable:
  assumes "\<not> readable (db s)"
  shows "on_exception pdf n b su s msg = Inl (field_limit_error, s)"
  using assms by (simp add: on_exception_def Let_def update_db_unreadable)





section \<open>The retry loop\<close>

declare retry_loop.simps [simp del]








section \<open>Retry sessions and runs\<close>

















section \<open>A load after an upsert; the conversion of one file\<close>




lemma write_pages_eq:
  "write_pages pages md =
     md @ concat (map (\<lambda>p. ''## Page '' @ str_int (index p + 1) @ ''\<newline>\<newline>'' @ markdown p @ ''\<newline>\<newline>'') pages)"
  by (induction pages arbitrary: md) simp_all

lemma convert_returns:
  assumes "raised (convert_pdf_to_markdown env pdf) = None"
  shows "\<exists>b64 pages. pdf_read env = Inr b64 \<and> b64 \<noteq> [] \<and> ocr_response env = Inr pages \<and>
           md_write env = None \<and>
           md_file (convert_pdf_to_markdown env pdf) =
             Some (os_path_join EXPORT_DIR (rsplit_dot_head pdf @ ''.md''), write_pages pages [])"
  using assms
  by (auto simp: convert_pdf_to_markdown_def encode_pdf_def Let_def
           split: sum.splits option.splits if_splits)

text \<open>
  Claim C9. When a call of the conversion returns, the Markdown file holds, for each page
  of the response in order, the heading \<open>## Page N\<close> with N the index of the page plus 1,
  a blank line, the text of the page and a blank line; for a response of one page with
  index 0 and text \<open>hello\<close> the content is \<open>## Page 1\<close>, a blank line, \<open>hello\<close> and a
  blank line.
\<close>

theorem primary_output_content:
  assumes "raised (convert_pdf_to_markdown env pdf) = None"
  shows "\<exists>pages. ocr_response env = Inr pages \<and>
           md_file (convert_pdf_to_markdown env pdf) =
             Some (os_path_join EXPORT_DIR (rsplit_dot_head pdf @ ''.md''),
                   concat (map (\<lambda>p. ''## Page '' @ str_int (index p + 1) @ ''\<newline>\<newline>'' @
                                      markdown p @ ''\<newline>\<newline>'') pages)) \<and>
           (pages = [\<lparr>index = 0, markdown = ''hello''\<rparr>] \<longrightarrow>
              map_option snd (md_file (convert_pdf_to_markdown env pdf)) =
                Some ''## Page 1\<newline>\<newline>hello\<newline>\<newline>'')"
proof -
  from convert_returns [OF assms] obtain pages where
    o: "ocr_response env = Inr pages" and
    m: "md_file (convert_pdf_to_markdown env pdf) =
          Some (os_path_join EXPORT_DIR (rsplit_dot_head pdf @ ''.md''), write_pages pages [])"
    by blast
  have one: "str_int (0 + 1) = ''1''"
    by (simp add: str_int_def digit_char_def)
  from o m one show ?thesis by (auto simp: write_pages_eq)
qed

theorem primary_output_content_witness:
  "md_file (convert_pdf_to_markdown hello_env ''a.pdf'') =
     Some (''docs_exports/a.md'', ''## Page 1\<newline>\<newline>hello\<newline>\<newline>'')"
proof -
  have h: "raised (convert_pdf_to_markdown hello_env ''a.pdf'') = None"
    by (simp add: convert_pdf_to_markdown_def encode_pdf_def hello_env_def Let_def)
  have o: "ocr_response hello_env = Inr [\<lparr>index = 0, markdown = ''hello''\<rparr>]"
    by (simp add: hello_env_def)
  have p: "os_path_join EXPORT_DIR (rsplit_dot_head ''a.pdf'' @ ''.md'') = ''docs_exports/a.md''"
    by (simp add: os_path_join_def EXPORT_DIR_def rsplit_dot_head_def)
  from primary_output_content [OF h] o p show ?thesis
    by (auto simp: str_int_def digit_char_def)
qed






section \<open>Discovery: the keys of the store\<close>

declare os_walk.simps [simp del] rel_paths.simps [simp del] well_named.simps [simp del]











lemma two_folders_files: "get_pdf_files (Some two_folders) = Inr [''x/a.pdf'', ''y/a.pdf'']"
  by code_simp






lemma to_do_empty:
  "\<forall>f \<in> set all_files. \<exists>r. processed f = Some r \<and> status r = ''success'' \<Longrightarrow>
   to_do processed all_files = []"
  by (induction all_files) (auto simp: to_do_def)

text \<open>
  Claim C2. When the loaded store has a record with status success for every discovered
  file, the work set is empty and the run calls the conversion not once: it ends with no
  call, no event, and the store as it found it.
\<close>

theorem resume_is_idempotent:
  assumes "load_processed csv = Inr processed"
    and "get_pdf_files docs = Inr all_files"
    and "\<forall>f \<in> set all_files. \<exists>r. processed f = Some r \<and> status r = ''success''"
  shows "to_do processed all_files = [] \<and>
         (\<exists>s. main world docs csv = Finished s \<and> calls s = 0 \<and> trace s = [] \<and>
              converted_count s = 0 \<and> db s = csv)"
proof -
  from assms(3) have t: "to_do processed all_files = []" by (rule to_do_empty)
  with assms(1,2) have "main world docs csv = Finished (initial_state csv)"
    by (simp add: main_def)
  with t show ?thesis by (simp add: initial_state_def)
qed

theorem resume_is_idempotent_witness:
  "\<exists>s. main (\<lambda>n f. failing_env) (Some two_folders)
         (Some [\<lparr>filename = ''x/a.pdf'', status = ''success'', attempts = ''1'', error = ''''\<rparr>,
                \<lparr>filename = ''y/a.pdf'', status = ''success'', attempts = ''3'', error = ''''\<rparr>]) =
         Finished s \<and>
       calls s = 0 \<and> trace s = []"
proof -
  let ?csv = "Some [\<lparr>filename = ''x/a.pdf'', status = ''success'', attempts = ''1'', error = ''''\<rparr>,
                    \<lparr>filename = ''y/a.pdf'', status = ''success'', attempts = ''3'', error = ''''\<rparr>]"
  let ?m = "[''x/a.pdf'' \<mapsto> \<lparr>filename = ''x/a.pdf'', status = ''success'', attempts = ''1'', error = ''''\<rparr>,
             ''y/a.pdf'' \<mapsto> \<lparr>filename = ''y/a.pdf'', status = ''success'', attempts = ''3'', error = ''''\<rparr>]"
  have l: "load_processed ?csv = Inr ?m"
    by (simp add: load_processed_def row_readable_def field_size_limit_def)
  have h: "\<forall>f \<in> set [''x/a.pdf'', ''y/a.pdf'']. \<exists>r. ?m f = Some r \<and> status r = ''success''"
    by simp
  from resume_is_idempotent [OF l two_folders_files h, of "\<lambda>n f. failing_env"]
  show ?thesis by blast
qed

end
